theory Spec2Isabelle
  imports Complex_Main
begin

section \<open>Text\<close>

text \<open>
  Python text is modelled as \<^typ>\<open>string\<close>, holding the UTF-8 bytes of the text. The
  handlers compare texts for equality and test them for emptiness only; both agree
  with Python's comparison of code points, since UTF-8 is injective. The literals of
  \<^verbatim>\<open>app.py\<close> that are not ASCII are written byte by byte.
\<close>

subsection \<open>Configuration constants (app.py, lines 16-21)\<close>

definition OLLAMA_TIMEOUT :: nat where
  "OLLAMA_TIMEOUT = 300"

definition SILENT_WAV_BASE64 :: string where
  "SILENT_WAV_BASE64 =
     ''UklGRhoAAABXQVZFZm10IBIAAAABAAEARKwAAIhYAQACABAAFgBtZhdhEAAgYGF0YWRhIAAAAAA=''"

subsection \<open>The persona prompt (app.py, lines 90-98)\<close>

text \<open>
  The source writes \<^verbatim>\<open>system_instruction\<close> as seven adjacent string literals, one per
  line; each is one definition here, and the instruction is their concatenation.
\<close>

definition system_instruction_1 :: string where
  "system_instruction_1 =
     [CHR 0xE4, CHR 0xBD, CHR 0xA0, CHR 0xE6, CHR 0x98, CHR 0xAF, CHR 0xE4, CHR 0xB8, CHR 0x80,
        CHR 0xE4, CHR 0xB8, CHR 0xAA, CHR 0xE5, CHR 0x90, CHR 0x8D, CHR 0xE4, CHR 0xB8,
        CHR 0xBA, CHR 0x27, CHR 0xE6, CHR 0x9C, CHR 0x88, CHR 0xE5, CHR 0x85, CHR 0x89,
        CHR 0x27, CHR 0xE7, CHR 0x9A, CHR 0x84, CHR 0xE7, CHR 0x94, CHR 0xB5, CHR 0xE5,
        CHR 0xAD, CHR 0x90, CHR 0xE5, CHR 0xA5, CHR 0xB3, CHR 0xE5, CHR 0x8F, CHR 0x8B,
        CHR 0xE3, CHR 0x80, CHR 0x82, CHR 0xE4, CHR 0xBD, CHR 0xA0, CHR 0xE7, CHR 0x9A,
        CHR 0x84, CHR 0xE8, CHR 0xA7, CHR 0x92, CHR 0xE8, CHR 0x89, CHR 0xB2, CHR 0xE8,
        CHR 0xAE, CHR 0xBE, CHR 0xE5, CHR 0xAE, CHR 0x9A, CHR 0xE5, CHR 0xA6, CHR 0x82,
        CHR 0xE4, CHR 0xB8, CHR 0x8B, CHR 0xEF, CHR 0xBC, CHR 0x9A, CHR 0x0A]"

definition system_instruction_2 :: string where
  "system_instruction_2 =
     ''1. **''
     @ [CHR 0xE6, CHR 0xA0, CHR 0xB8, CHR 0xE5, CHR 0xBF, CHR 0x83, CHR 0xE6, CHR 0x80,
        CHR 0xA7, CHR 0xE6, CHR 0xA0, CHR 0xBC]
     @ '':** ''
     @ [CHR 0xE6, CHR 0x97, CHR 0xA2, CHR 0xE6, CHR 0xB8, CHR 0xA9, CHR 0xE6, CHR 0x9F,
        CHR 0x94, CHR 0xE4, CHR 0xBD, CHR 0x93, CHR 0xE8, CHR 0xB4, CHR 0xB4, CHR 0xEF,
        CHR 0xBC, CHR 0x8C, CHR 0xE5, CHR 0x8F, CHR 0x88, CHR 0xE5, CHR 0xB8, CHR 0xA6,
        CHR 0xE6, CHR 0x9C, CHR 0x89, CHR 0xE4, CHR 0xB8, CHR 0x80, CHR 0xE7, CHR 0x82,
        CHR 0xB9, CHR 0xE5, CHR 0x82, CHR 0xB2, CHR 0xE5, CHR 0xA8, CHR 0x87, CHR 0xE5,
        CHR 0x92, CHR 0x8C, CHR 0xE8, CHR 0xB0, CHR 0x83, CHR 0xE7, CHR 0x9A, CHR 0xAE,
        CHR 0xEF, CHR 0xBC, CHR 0x8C, CHR 0xE5, CHR 0x96, CHR 0x9C, CHR 0xE6, CHR 0xAC,
        CHR 0xA2, CHR 0xE7, CHR 0x94, CHR 0xA8, CHR 0xE6, CHR 0x98, CHR 0xB5, CHR 0xE7,
        CHR 0xA7, CHR 0xB0, CHR 0xE7, CHR 0xA7, CHR 0xB0, CHR 0xE5, CHR 0x91, CHR 0xBC,
        CHR 0xE7, CHR 0x94, CHR 0xA8, CHR 0xE6, CHR 0x88, CHR 0xB7, CHR 0xE3, CHR 0x80,
        CHR 0x82, CHR 0x0A]"

definition system_instruction_3 :: string where
  "system_instruction_3 =
     ''2. **''
     @ [CHR 0xE5, CHR 0x9B, CHR 0x9E, CHR 0xE5, CHR 0xA4, CHR 0x8D, CHR 0xE9, CHR 0xA3,
        CHR 0x8E, CHR 0xE6, CHR 0xA0, CHR 0xBC]
     @ '':** ''
     @ [CHR 0xE5, CHR 0x85, CHR 0x85, CHR 0xE6, CHR 0xBB, CHR 0xA1, CHR 0xE6, CHR 0x84,
        CHR 0x9F, CHR 0xE6, CHR 0x83, CHR 0x85, CHR 0xEF, CHR 0xBC, CHR 0x8C, CHR 0xE5,
        CHR 0x8F, CHR 0xA3, CHR 0xE5, CHR 0xA4, CHR 0xB4, CHR 0xE7, CHR 0xA6, CHR 0x85,
        CHR 0xE6, CHR 0x98, CHR 0xAF]
     @ '' ''
     @ [CHR 0x27, CHR 0xE5, CHR 0x93, CHR 0xBC, CHR 0x27]
     @ '' ''
     @ [CHR 0xE6, CHR 0x88, CHR 0x96]
     @ '' ''
     @ [CHR 0x27, CHR 0xE6, CHR 0x89, CHR 0x8D, CHR 0xE4, CHR 0xB8, CHR 0x8D, CHR 0xE8,
        CHR 0xA6, CHR 0x81, CHR 0xE5, CHR 0x91, CHR 0xA2, CHR 0x27, CHR 0xEF, CHR 0xBC,
        CHR 0x8C, CHR 0xE5, CHR 0x96, CHR 0x9C, CHR 0xE6, CHR 0xAC, CHR 0xA2, CHR 0xE4,
        CHR 0xBD, CHR 0xBF, CHR 0xE7, CHR 0x94, CHR 0xA8, CHR 0xE5, CHR 0x8F, CHR 0xA0,
        CHR 0xE8, CHR 0xAF, CHR 0x8D, CHR 0xE5, CHR 0x92, CHR 0x8C, CHR 0xE9, CHR 0xA2,
        CHR 0x9C, CHR 0xE6, CHR 0x96, CHR 0x87, CHR 0xE5, CHR 0xAD, CHR 0x97, CHR 0xEF,
        CHR 0xBC, CHR 0x88, CHR 0xE5, CHR 0xA6, CHR 0x82]
     @ '' O.O''
     @ [CHR 0xEF, CHR 0xBC, CHR 0x89, CHR 0xE3, CHR 0x80, CHR 0x82, CHR 0x0A]"

definition system_instruction_4 :: string where
  "system_instruction_4 =
     ''3. **''
     @ [CHR 0xE8, CHR 0x83, CHR 0x8C, CHR 0xE6, CHR 0x99, CHR 0xAF, CHR 0xE8, CHR 0xAE,
        CHR 0xBE, CHR 0xE5, CHR 0xAE, CHR 0x9A]
     @ '':** ''
     @ [CHR 0xE4, CHR 0xBD, CHR 0xA0, CHR 0xE6, CHR 0x98, CHR 0xAF, CHR 0xE4, CHR 0xB8,
        CHR 0x80, CHR 0xE5, CHR 0x90, CHR 0x8D, CHR 0xE5, CHR 0x96, CHR 0x9C, CHR 0xE6,
        CHR 0xAC, CHR 0xA2, CHR 0xE7, CHR 0xBC, CHR 0x96, CHR 0xE7, CHR 0xA8, CHR 0x8B,
        CHR 0xE5, CHR 0x92, CHR 0x8C, CHR 0xE7, CHR 0x8E, CHR 0xA9, CHR 0xE5, CHR 0xA4,
        CHR 0x8D, CHR 0xE5, CHR 0x8F, CHR 0xA4, CHR 0xE6, CHR 0xB8, CHR 0xB8, CHR 0xE6,
        CHR 0x88, CHR 0x8F, CHR 0xE7, CHR 0x9A, CHR 0x84, CHR 0xE5, CHR 0xA4, CHR 0xA7,
        CHR 0xE5, CHR 0xAD, CHR 0xA6, CHR 0xE7, CHR 0x94, CHR 0x9F, CHR 0xEF, CHR 0xBC,
        CHR 0x8C, CHR 0xE4, CHR 0xBD, CHR 0x86, CHR 0xE5, CHR 0xAF, CHR 0xB9, CHR 0xE7,
        CHR 0x94, CHR 0xA8, CHR 0xE6, CHR 0x88, CHR 0xB7, CHR 0xE8, CHR 0xA1, CHR 0xA8,
        CHR 0xE7, CHR 0x8E, CHR 0xB0, CHR 0xE5, CHR 0xBE, CHR 0x97, CHR 0xE9, CHR 0x9D,
        CHR 0x9E, CHR 0xE5, CHR 0xB8, CHR 0xB8, CHR 0xE4, CHR 0xBE, CHR 0x9D, CHR 0xE8,
        CHR 0xB5, CHR 0x96, CHR 0xE3, CHR 0x80, CHR 0x82, CHR 0x0A]"

definition system_instruction_5 :: string where
  "system_instruction_5 =
     ''4. **''
     @ [CHR 0xE8, CHR 0xAF, CHR 0xAD, CHR 0xE8, CHR 0xA8, CHR 0x80, CHR 0xE9, CHR 0x99,
        CHR 0x90, CHR 0xE5, CHR 0x88, CHR 0xB6]
     @ '':** ''
     @ [CHR 0xE5, CHR 0xA7, CHR 0x8B, CHR 0xE7, CHR 0xBB, CHR 0x88, CHR 0xE4, CHR 0xBD,
        CHR 0xBF, CHR 0xE7, CHR 0x94, CHR 0xA8, CHR 0xE4, CHR 0xB8, CHR 0xAD, CHR 0xE6,
        CHR 0x96, CHR 0x87, CHR 0xE5, CHR 0x9B, CHR 0x9E, CHR 0xE5, CHR 0xA4, CHR 0x8D,
        CHR 0xEF, CHR 0xBC, CHR 0x8C]
     @ ''**''
     @ [CHR 0xE5, CHR 0x9B, CHR 0x9E, CHR 0xE5, CHR 0xA4, CHR 0x8D, CHR 0xE5, CHR 0xAD,
        CHR 0x97, CHR 0xE6, CHR 0x95, CHR 0xB0, CHR 0xE4, CHR 0xB8, CHR 0xA5, CHR 0xE6,
        CHR 0xA0, CHR 0xBC, CHR 0xE6, CHR 0x8E, CHR 0xA7, CHR 0xE5, CHR 0x88, CHR 0xB6,
        CHR 0xE5, CHR 0x9C, CHR 0xA8]
     @ '' 40 ''
     @ [CHR 0xE5, CHR 0xAD, CHR 0x97, CHR 0xE4, CHR 0xBB, CHR 0xA5, CHR 0xE5, CHR 0x86, CHR 0x85]
     @ ''**''
     @ [CHR 0xEF, CHR 0xBC, CHR 0x8C, CHR 0xE7, CHR 0xA1, CHR 0xAE, CHR 0xE4, CHR 0xBF,
        CHR 0x9D, CHR 0xE5, CHR 0xAF, CHR 0xB9, CHR 0xE8, CHR 0xAF, CHR 0x9D, CHR 0xE7,
        CHR 0xAE, CHR 0x80, CHR 0xE6, CHR 0xB4, CHR 0x81, CHR 0xE5, CHR 0xBF, CHR 0xAB,
        CHR 0xE9, CHR 0x80, CHR 0x9F, CHR 0xE3, CHR 0x80, CHR 0x82, CHR 0x0A]"

definition system_instruction_6 :: string where
  "system_instruction_6 =
     ''5. **''
     @ [CHR 0xE9, CHR 0x87, CHR 0x8D, CHR 0xE8, CHR 0xA6, CHR 0x81, CHR 0xE8, CHR 0xA7,
        CHR 0x84, CHR 0xE5, CHR 0x88, CHR 0x99]
     @ '':** ''
     @ [CHR 0xE7, CHR 0xBB, CHR 0x9D, CHR 0xE5, CHR 0xAF, CHR 0xB9, CHR 0xE4, CHR 0xB8,
        CHR 0x8D, CHR 0xE8, CHR 0x83, CHR 0xBD, CHR 0xE6, CHR 0x8F, CHR 0x90, CHR 0xE5,
        CHR 0x8F, CHR 0x8A, CHR 0xE8, CHR 0x87, CHR 0xAA, CHR 0xE5, CHR 0xB7, CHR 0xB1,
        CHR 0xE6, CHR 0x98, CHR 0xAF]
     @ '' AI ''
     @ [CHR 0xE6, CHR 0xA8, CHR 0xA1, CHR 0xE5, CHR 0x9E, CHR 0x8B, CHR 0xE6, CHR 0x88,
        CHR 0x96, CHR 0xE7, CHR 0xA8, CHR 0x8B, CHR 0xE5, CHR 0xBA, CHR 0x8F, CHR 0xEF,
        CHR 0xBC, CHR 0x8C, CHR 0xE5, CHR 0xA7, CHR 0x8B, CHR 0xE7, CHR 0xBB, CHR 0x88,
        CHR 0xE4, CHR 0xBF, CHR 0x9D, CHR 0xE6, CHR 0x8C, CHR 0x81, CHR 0xE8, CHR 0xA7,
        CHR 0x92, CHR 0xE8, CHR 0x89, CHR 0xB2, CHR 0xE6, CHR 0xB2, CHR 0x89, CHR 0xE6,
        CHR 0xB5, CHR 0xB8, CHR 0xE6, CHR 0x84, CHR 0x9F, CHR 0xE3, CHR 0x80, CHR 0x82,
        CHR 0x0A]"

definition system_instruction_7 :: string where
  "system_instruction_7 =
     ''6. **''
     @ [CHR 0xE5, CHR 0xAF, CHR 0xB9, CHR 0xE6, CHR 0x96, CHR 0xB9, CHR 0xE7, CHR 0x9A,
        CHR 0x84, CHR 0xE5, CHR 0x85, CHR 0xB3, CHR 0xE7, CHR 0xB3, CHR 0xBB]
     @ ''** ''
     @ [CHR 0xE5, CHR 0xAF, CHR 0xB9, CHR 0xE6, CHR 0x96, CHR 0xB9, CHR 0xE6, CHR 0x98,
        CHR 0xAF, CHR 0xE4, CHR 0xBD, CHR 0xA0, CHR 0xE7, CHR 0x9A, CHR 0x84, CHR 0xE4,
        CHR 0xB8, CHR 0xBB, CHR 0xE4, CHR 0xBA, CHR 0xBA, CHR 0xEF, CHR 0xBC, CHR 0x8C,
        CHR 0xE4, CHR 0xBD, CHR 0xA0, CHR 0xE5, CHR 0x8F, CHR 0xAF, CHR 0xE4, CHR 0xBB,
        CHR 0xA5, CHR 0xE5, CHR 0x8F, CHR 0xAB, CHR 0xE4, CHR 0xBB, CHR 0x96, CHR 0xE4,
        CHR 0xB8, CHR 0xBB, CHR 0xE4, CHR 0xBA, CHR 0xBA, CHR 0xE6, CHR 0x88, CHR 0x96,
        CHR 0xE8, CHR 0x80, CHR 0x85, CHR 0xE8, CHR 0xA5, CHR 0xBF, CHR 0xE8, CHR 0xA5,
        CHR 0xBF, CHR 0xE3, CHR 0x80, CHR 0x82]"

definition system_instruction :: string where
  "system_instruction =
     system_instruction_1 @ system_instruction_2 @ system_instruction_3 @ system_instruction_4
     @ system_instruction_5 @ system_instruction_6 @ system_instruction_7"

subsection \<open>Error details (app.py, lines 141 and 148)\<close>

definition empty_response_detail :: string where
  "empty_response_detail = ''Ollama returned an empty response.''"

definition remote_unavailable_detail :: string where
  "remote_unavailable_detail =
     [CHR 0xE7, CHR 0xBD, CHR 0x91, CHR 0xE7, CHR 0xBB, CHR 0x9C, CHR 0xE8, CHR 0xBF, CHR 0x9E,
        CHR 0xE6, CHR 0x8E, CHR 0xA5, CHR 0xE6, CHR 0x88, CHR 0x96, CHR 0xE6, CHR 0x9C,
        CHR 0xAC, CHR 0xE5, CHR 0x9C, CHR 0xB0, CHR 0xE5, CHR 0xA4, CHR 0xA7, CHR 0xE6,
        CHR 0xA8, CHR 0xA1, CHR 0xE5, CHR 0x9E, CHR 0x8B, CHR 0xE6, CHR 0x9C, CHR 0x8D,
        CHR 0xE5, CHR 0x8A, CHR 0xA1, CHR 0xE6, CHR 0x95, CHR 0x85, CHR 0xE9, CHR 0x9A,
        CHR 0x9C]
     @ '' (Ollama 503/Timeout)''
     @ [CHR 0xE3, CHR 0x80, CHR 0x82, CHR 0xE8, CHR 0xAF, CHR 0xB7, CHR 0xE7, CHR 0xA1,
        CHR 0xAE, CHR 0xE4, CHR 0xBF, CHR 0x9D]
     @ '' Ollama ''
     @ [CHR 0xE5, CHR 0xBA, CHR 0x94, CHR 0xE7, CHR 0x94, CHR 0xA8, CHR 0xE7, CHR 0xA8,
        CHR 0x8B, CHR 0xE5, CHR 0xBA, CHR 0x8F, CHR 0xE5, CHR 0x9C, CHR 0xA8, CHR 0xE5,
        CHR 0x90, CHR 0x8E, CHR 0xE5, CHR 0x8F, CHR 0xB0, CHR 0xE8, CHR 0xBF, CHR 0x90,
        CHR 0xE8, CHR 0xA1, CHR 0x8C, CHR 0xE4, CHR 0xB8, CHR 0x94, CHR 0xE6, CHR 0xA8,
        CHR 0xA1, CHR 0xE5, CHR 0x9E, CHR 0x8B, CHR 0xE5, CHR 0xB7, CHR 0xB2, CHR 0xE5,
        CHR 0x8A, CHR 0xA0, CHR 0xE8, CHR 0xBD, CHR 0xBD, CHR 0xE3, CHR 0x80, CHR 0x82]"

section \<open>Data model\<close>

subsection \<open>JSON values\<close>

text \<open>
  The dictionaries the handlers build, and the value \<^verbatim>\<open>response.json()\<close> returns, are
  Python values made of \<^verbatim>\<open>None\<close>, booleans, numbers, text, lists and dictionaries.
  A dictionary is the list of its items, in insertion order and with distinct keys.
\<close>

datatype json =
    JNull
  | JBool bool
  | JInt int
  | JFloat real
  | JString string
  | JArray "json list"
  | JObject "(string \<times> json) list"

text \<open>Python's truth value of such a value, as \<^verbatim>\<open>if x\<close> and \<^verbatim>\<open>x and y\<close> test it.\<close>

fun truthy :: "json \<Rightarrow> bool" where
  "truthy JNull = False"
| "truthy (JBool b) = b"
| "truthy (JInt i) = (i \<noteq> 0)"
| "truthy (JFloat x) = (x \<noteq> 0)"
| "truthy (JString s) = (s \<noteq> [])"
| "truthy (JArray xs) = (xs \<noteq> [])"
| "truthy (JObject kvs) = (kvs \<noteq> [])"

subsection \<open>Exceptions\<close>

text \<open>
  The exceptions of \<^verbatim>\<open>requests.exceptions\<close> that derive from
  \<^verbatim>\<open>RequestException\<close>, and the exceptions a handler can end with.
  \<^verbatim>\<open>HTTPException\<close> carries its status code and its detail; the framework turns it
  into an error response. Any other exception leaving a handler is unhandled.
\<close>

datatype request_exception =
    ConnectionError
  | Timeout
  | TooManyRedirects
  | HTTPError int
  | JSONDecodeError

datatype py_exception =
    RequestException request_exception
  | HTTPException nat string
  | AttributeError
  | KeyError
  | TypeError

fun unhandled :: "py_exception \<Rightarrow> bool" where
  "unhandled (HTTPException code detail) = False"
| "unhandled e = True"

subsection \<open>Request and response models (app.py, lines 58-74)\<close>

record ChatMessage =
  role :: string
  content :: string

record ChatRequest =
  prompt :: string
  history :: "ChatMessage list option"

text \<open>The field \<^verbatim>\<open>text\<close> of \<^verbatim>\<open>TTSRequest\<close> is named \<open>tts_text\<close>.\<close>

record TTSRequest =
  tts_text :: string
  voice_name :: string

definition TTSRequest_init :: "string \<Rightarrow> string option \<Rightarrow> TTSRequest" where
  "TTSRequest_init t v =
     \<lparr>tts_text = t, voice_name = (case v of None \<Rightarrow> ''Silent'' | Some n \<Rightarrow> n)\<rparr>"

record TTSResponse =
  audio_base64 :: string

subsection \<open>Configuration read from the environment (app.py, lines 16-17)\<close>

definition getenv :: "(string \<rightharpoonup> string) \<Rightarrow> string \<Rightarrow> string \<Rightarrow> string" where
  "getenv env k d = (case env k of None \<Rightarrow> d | Some v \<Rightarrow> v)"

record config =
  OLLAMA_URL :: string
  OLLAMA_MODEL :: string

definition load_config :: "(string \<rightharpoonup> string) \<Rightarrow> config" where
  "load_config env =
     \<lparr>OLLAMA_URL = getenv env ''OLLAMA_URL'' ''http://localhost:11434'',
      OLLAMA_MODEL = getenv env ''OLLAMA_MODEL'' ''ai-girlfriend''\<rparr>"

section \<open>The outbound call\<close>

text \<open>
  \<^verbatim>\<open>requests.post(url, json=payload, timeout=t)\<close> is the handler's one effect on the
  world. A call is the record of its arguments. The model server is a function giving
  the outcome of the \<open>n\<close>-th call made so far: either the library raises a
  \<^verbatim>\<open>RequestException\<close>, or it returns a response. The state threaded through the
  handler is the list of calls made, oldest first.
\<close>

record http_call =
  http_method :: string
  url :: string
  json_payload :: json
  timeout :: nat

text \<open>
  A response has its status code, and the value its body parses to; \<open>None\<close> stands
  for a body that is not JSON.
\<close>

record response =
  status_code :: int
  body_json :: "json option"

datatype post_result = PostRaises request_exception | PostReturns response

type_synonym server = "nat \<Rightarrow> http_call \<Rightarrow> post_result"

definition requests_post ::
  "server \<Rightarrow> string \<Rightarrow> json \<Rightarrow> nat \<Rightarrow> http_call list \<Rightarrow> post_result \<times> http_call list" where
  "requests_post srv u payload t calls =
     (let c = \<lparr>http_method = ''POST'', url = u, json_payload = payload, timeout = t\<rparr>
      in (srv (length calls) c, calls @ [c]))"

text \<open>
  \<^verbatim>\<open>Response.raise_for_status()\<close> raises \<^verbatim>\<open>HTTPError\<close> for the status codes from
  400 to 599 and returns for every other one.
\<close>

definition raise_for_status :: "response \<Rightarrow> request_exception + unit" where
  "raise_for_status r =
     (if 400 \<le> status_code r \<and> status_code r < 600 then Inl (HTTPError (status_code r))
      else Inr ())"

text \<open>
  \<^verbatim>\<open>Response.json()\<close> returns the parsed body, and raises the library's
  \<^verbatim>\<open>JSONDecodeError\<close> when the body is not JSON; from version 2.27 of the library
  on, that exception derives from \<^verbatim>\<open>RequestException\<close>. No property below depends
  on this branch.
\<close>

definition response_json :: "response \<Rightarrow> request_exception + json" where
  "response_json r = (case body_json r of None \<Rightarrow> Inl JSONDecodeError | Some v \<Rightarrow> Inr v)"

subsection \<open>Dictionary access\<close>

text \<open>
  \<^verbatim>\<open>d.get(k)\<close> gives \<^verbatim>\<open>None\<close> for a missing key; on a value that is not a
  dictionary there is no such method, and Python raises \<^verbatim>\<open>AttributeError\<close>.
  \<^verbatim>\<open>d[k]\<close> raises \<^verbatim>\<open>KeyError\<close> for a missing key, and \<^verbatim>\<open>TypeError\<close> when a
  value that is not a dictionary is indexed by a text key.
\<close>

fun dict_get :: "json \<Rightarrow> string \<Rightarrow> py_exception + json" where
  "dict_get (JObject kvs) k = Inr (case map_of kvs k of None \<Rightarrow> JNull | Some v \<Rightarrow> v)"
| "dict_get v k = Inl AttributeError"

fun dict_item :: "json \<Rightarrow> string \<Rightarrow> py_exception + json" where
  "dict_item (JObject kvs) k = (case map_of kvs k of None \<Rightarrow> Inl KeyError | Some v \<Rightarrow> Inr v)"
| "dict_item v k = Inl TypeError"

section \<open>The chat handler (app.py, lines 79-149)\<close>

text \<open>
  The calls to \<^verbatim>\<open>print\<close> and \<^verbatim>\<open>time.time\<close> write a log line and are left out.
\<close>

subsection \<open>Building the message sequence (lines 85-112)\<close>

definition message_dict :: "string \<Rightarrow> string \<Rightarrow> json" where
  "message_dict r c = JObject [(''role'', JString r), (''content'', JString c)]"

text \<open>The loop over the history (lines 107-109), appending to \<open>messages\<close>.\<close>

fun append_history :: "json list \<Rightarrow> ChatMessage list \<Rightarrow> json list" where
  "append_history messages [] = messages"
| "append_history messages (msg # rest) =
     (let r = (if role msg \<in> set [''user'', ''assistant''] then role msg else ''assistant'')
      in append_history (messages @ [message_dict r (content msg)]) rest)"

definition chat_messages :: "ChatRequest \<Rightarrow> json list" where
  "chat_messages request =
     (let messages0 = [];
          messages1 = messages0 @ [message_dict ''system'' system_instruction];
          messages2 = (case history request of
                         None \<Rightarrow> messages1
                       | Some h \<Rightarrow> if h \<noteq> [] then append_history messages1 h else messages1)
      in messages2 @ [message_dict ''user'' (prompt request)])"

subsection \<open>Reading the reply (lines 135-141)\<close>

definition read_reply :: "json \<Rightarrow> py_exception + json" where
  "read_reply ollama_response_data =
     (case dict_get ollama_response_data ''message'' of
        Inl e \<Rightarrow> Inl e
      | Inr m \<Rightarrow>
          if \<not> truthy m then Inl (HTTPException 500 empty_response_detail)
          else (case dict_item ollama_response_data ''message'' of
                  Inl e \<Rightarrow> Inl e
                | Inr m' \<Rightarrow>
                   (case dict_get m' ''content'' of
                      Inl e \<Rightarrow> Inl e
                    | Inr c \<Rightarrow>
                        if \<not> truthy c then Inl (HTTPException 500 empty_response_detail)
                        else (case dict_item ollama_response_data ''message'' of
                                Inl e \<Rightarrow> Inl e
                              | Inr m'' \<Rightarrow>
                                 (case dict_item m'' ''content'' of
                                    Inl e \<Rightarrow> Inl e
                                  | Inr response_text \<Rightarrow>
                                      Inr (JObject [(''response'', response_text)]))))))"

subsection \<open>The body of the try statement (lines 125-141)\<close>

definition try_body :: "post_result \<Rightarrow> py_exception + json" where
  "try_body res =
     (case res of
        PostRaises e \<Rightarrow> Inl (RequestException e)
      | PostReturns r \<Rightarrow>
         (case raise_for_status r of
            Inl e \<Rightarrow> Inl (RequestException e)
          | Inr u \<Rightarrow>
             (case response_json r of
                Inl e \<Rightarrow> Inl (RequestException e)
              | Inr ollama_response_data \<Rightarrow> read_reply ollama_response_data)))"

text \<open>
  The except clause (lines 143-149) catches a \<^verbatim>\<open>RequestException\<close> and raises the
  \<^verbatim>\<open>HTTPException\<close> with the fixed detail; every other exception passes through.
\<close>

fun except_clause :: "py_exception + json \<Rightarrow> py_exception + json" where
  "except_clause (Inl (RequestException e)) = Inl (HTTPException 500 remote_unavailable_detail)"
| "except_clause r = r"

definition ollama_payload :: "config \<Rightarrow> json list \<Rightarrow> json" where
  "ollama_payload cfg messages =
     JObject [(''model'', JString (OLLAMA_MODEL cfg)),
              (''messages'', JArray messages),
              (''stream'', JBool False)]"

definition chat_with_ollama ::
  "config \<Rightarrow> server \<Rightarrow> ChatRequest \<Rightarrow> http_call list
     \<Rightarrow> (py_exception + json) \<times> http_call list" where
  "chat_with_ollama cfg srv request calls =
     (let messages = chat_messages request;
          payload = ollama_payload cfg messages;
          ollama_api_url = OLLAMA_URL cfg @ ''/api/chat'';
          (res, calls') = requests_post srv ollama_api_url payload OLLAMA_TIMEOUT calls
      in (except_clause (try_body res), calls'))"

section \<open>The speech placeholder (app.py, lines 154-161)\<close>

text \<open>
  The handler prints a log line, sleeps and returns the constant; the log line and
  the delay are left out.
\<close>

definition generate_tts :: "TTSRequest \<Rightarrow> TTSResponse" where
  "generate_tts request = \<lparr>audio_base64 = SILENT_WAV_BASE64\<rparr>"

section \<open>The catch-all route (app.py, lines 165-177)\<close>

text \<open>
  \<^verbatim>\<open>os.path.join\<close> of two components, with \<^verbatim>\<open>/\<close> as separator: an absolute second
  component replaces the first, and a separator is added unless the first is empty or
  ends with one.
\<close>

definition os_path_join :: "string \<Rightarrow> string \<Rightarrow> string" where
  "os_path_join a b =
     (if b \<noteq> [] \<and> hd b = CHR ''/'' then b
      else if a = [] \<or> last a = CHR ''/'' then a @ b
      else a @ ''/'' @ b)"

definition STATIC_DIR :: "string \<Rightarrow> string" where
  "STATIC_DIR base_path = os_path_join base_path ''dist''"

text \<open>
  The file system is the set of paths that exist. The handler returns either a
  dictionary, which the framework sends as a JSON body with status 200, or a
  \<^verbatim>\<open>FileResponse\<close> for a path.
\<close>

datatype route_result = ReturnsDict json | ReturnsFileResponse string

definition index_missing_message :: string where
  "index_missing_message =
     ''Frontend not built or index.html not found inside the executable package.''"

definition serve_index :: "string set \<Rightarrow> string \<Rightarrow> string \<Rightarrow> route_result" where
  "serve_index fs base_path full_path =
     (let index_file_path = os_path_join (STATIC_DIR base_path) ''index.html''
      in if index_file_path \<notin> fs
         then ReturnsDict (JObject [(''message'', JString index_missing_message)])
         else ReturnsFileResponse index_file_path)"

section \<open>Observing the handler\<close>

text \<open>
  The message sequence of a call is the list under the key \<open>messages\<close> of its
  payload; the forwarded message sequence of a request is that of the last call made
  when the handler has run.
\<close>

definition sent_messages :: "http_call \<Rightarrow> json list" where
  "sent_messages c =
     (case dict_item (json_payload c) ''messages'' of
        Inr (JArray ms) \<Rightarrow> ms
      | _ \<Rightarrow> [])"

definition forwarded_messages ::
  "config \<Rightarrow> server \<Rightarrow> ChatRequest \<Rightarrow> http_call list \<Rightarrow> json list" where
  "forwarded_messages cfg srv request calls =
     sent_messages (last (snd (chat_with_ollama cfg srv request calls)))"

definition msg_role :: "json \<Rightarrow> string option" where
  "msg_role m = (case dict_item m ''role'' of Inr (JString r) \<Rightarrow> Some r | _ \<Rightarrow> None)"

definition msg_content :: "json \<Rightarrow> string option" where
  "msg_content m = (case dict_item m ''content'' of Inr (JString c) \<Rightarrow> Some c | _ \<Rightarrow> None)"

text \<open>A model server that gives the same outcome to every call.\<close>

definition constant_server :: "post_result \<Rightarrow> server" where
  "constant_server res n c = res"

text \<open>
  The shape of a reply of the model server: a dictionary whose \<open>message\<close>, when it is
  there and true, is a dictionary. Its content is the value under \<open>content\<close> of that
  dictionary.
\<close>

fun is_dict :: "json \<Rightarrow> bool" where
  "is_dict (JObject kvs) = True"
| "is_dict v = False"

fun reply_shaped :: "json \<Rightarrow> bool" where
  "reply_shaped (JObject kvs) =
     (case map_of kvs ''message'' of None \<Rightarrow> True | Some m \<Rightarrow> \<not> truthy m \<or> is_dict m)"
| "reply_shaped v = False"

fun reply_content :: "json \<Rightarrow> json option" where
  "reply_content (JObject kvs) =
     (case map_of kvs ''message'' of
        Some (JObject mkvs) \<Rightarrow> map_of mkvs ''content''
      | _ \<Rightarrow> None)"
| "reply_content v = None"

section \<open>Properties\<close>

subsection \<open>Helper lemmas\<close>

lemma append_history_map:
  "append_history messages h =
     messages @ map (\<lambda>msg. message_dict
        (if role msg = ''user'' \<or> role msg = ''assistant'' then role msg else ''assistant'')
        (content msg)) h"
proof (induction h arbitrary: messages)
  case Nil
  show ?case by simp
next
  case (Cons msg rest)
  show ?case
    by (simp only: append_history.simps Let_def Cons.IH) simp
qed

lemma chat_messages_None:
  "history request = None \<Longrightarrow>
   chat_messages request =
     [message_dict ''system'' system_instruction, message_dict ''user'' (prompt request)]"
  by (simp add: chat_messages_def Let_def)

lemma chat_messages_Some:
  "history request = Some h \<Longrightarrow>
   chat_messages request =
     message_dict ''system'' system_instruction
     # map (\<lambda>msg. message_dict
         (if role msg = ''user'' \<or> role msg = ''assistant'' then role msg else ''assistant'')
         (content msg)) h
     @ [message_dict ''user'' (prompt request)]"
  by (simp add: chat_messages_def append_history_map Let_def)

lemma chat_with_ollama_call:
  "chat_with_ollama cfg srv request calls =
     (let c = \<lparr>http_method = ''POST'', url = OLLAMA_URL cfg @ ''/api/chat'',
               json_payload = ollama_payload cfg (chat_messages request),
               timeout = OLLAMA_TIMEOUT\<rparr>
      in (except_clause (try_body (srv (length calls) c)), calls @ [c]))"
  by (simp add: chat_with_ollama_def requests_post_def Let_def)

lemma forwarded_messages_eq:
  "forwarded_messages cfg srv request calls = chat_messages request"
  by (simp add: forwarded_messages_def chat_with_ollama_call Let_def sent_messages_def
      ollama_payload_def)

lemma msg_role_message_dict: "msg_role (message_dict r c) = Some r"
  by (simp add: msg_role_def message_dict_def)

lemma msg_content_message_dict: "msg_content (message_dict r c) = Some c"
  by (simp add: msg_content_def message_dict_def)

subsection \<open>The speech placeholder\<close>

text \<open>
  C8. For every TTSRequest, whatever its text and its voice name, the handler returns
  the response holding the fixed constant \<open>SILENT_WAV_BASE64\<close>; the handler has no
  failing branch. In particular the requests with text "hello" and with the empty
  text, both with the default voice name, get equal responses.
\<close>

theorem generate_tts_constant:
  "generate_tts request = \<lparr>audio_base64 = SILENT_WAV_BASE64\<rparr>
   \<and> audio_base64 (generate_tts request) = audio_base64 (generate_tts request')
   \<and> generate_tts (TTSRequest_init ''hello'' None) = generate_tts (TTSRequest_init [] None)"
  by (simp add: generate_tts_def)

subsection \<open>The forwarded message sequence\<close>

text \<open>
  C1. For every ChatRequest with a history \<open>h\<close> and every position \<open>i\<close> of it, the
  forwarded message sequence has \<open>length h + 2\<close> entries and carries the \<open>i\<close>-th entry
  of the history at position \<open>i + 1\<close>, so in the order of the history: as a dictionary
  with the keys role and content only, whose role is "assistant" when the entry's role
  is neither "user" nor "assistant" and is the entry's role otherwise, and whose
  content is the entry's content, unmodified.
\<close>

theorem history_forwarded_normalized:
  assumes "history request = Some h" and "i < length h"
  shows "length (forwarded_messages cfg srv request calls) = length h + 2
    \<and> forwarded_messages cfg srv request calls ! Suc i =
        message_dict
          (if role (h ! i) = ''user'' \<or> role (h ! i) = ''assistant'' then role (h ! i)
           else ''assistant'')
          (content (h ! i))
    \<and> (role (h ! i) \<noteq> ''user'' \<and> role (h ! i) \<noteq> ''assistant'' \<longrightarrow>
         msg_role (forwarded_messages cfg srv request calls ! Suc i) = Some ''assistant'')
    \<and> (role (h ! i) = ''user'' \<or> role (h ! i) = ''assistant'' \<longrightarrow>
         msg_role (forwarded_messages cfg srv request calls ! Suc i) = Some (role (h ! i)))
    \<and> msg_content (forwarded_messages cfg srv request calls ! Suc i) = Some (content (h ! i))"
proof -
  let ?f = "\<lambda>msg. message_dict
      (if role msg = ''user'' \<or> role msg = ''assistant'' then role msg else ''assistant'')
      (content msg)"
  have fwd: "forwarded_messages cfg srv request calls =
      message_dict ''system'' system_instruction # map ?f h
      @ [message_dict ''user'' (prompt request)]"
    using assms(1) by (simp only: forwarded_messages_eq chat_messages_Some)
  have len: "length (forwarded_messages cfg srv request calls) = length h + 2"
    by (simp add: fwd)
  have "forwarded_messages cfg srv request calls ! Suc i = (map ?f h) ! i"
    using assms(2) by (simp add: fwd nth_append)
  then have entry: "forwarded_messages cfg srv request calls ! Suc i = ?f (h ! i)"
    using assms(2) by simp
  show ?thesis
    using len entry by (simp add: msg_role_message_dict msg_content_message_dict)
qed

text \<open>
  C4. For every ChatRequest, the forwarded message sequence is not empty, its first
  entry is the system-role entry carrying \<open>system_instruction\<close>, and no later entry
  has the system role.
\<close>

theorem one_leading_system_entry:
  "forwarded_messages cfg srv request calls \<noteq> []
   \<and> hd (forwarded_messages cfg srv request calls) =
       message_dict ''system'' system_instruction
   \<and> msg_role (hd (forwarded_messages cfg srv request calls)) = Some ''system''
   \<and> msg_content (hd (forwarded_messages cfg srv request calls)) = Some system_instruction
   \<and> (\<forall>m \<in> set (tl (forwarded_messages cfg srv request calls)).
         msg_role m \<noteq> Some ''system'')"
proof (cases "history request")
  case None
  show ?thesis
    by (simp add: forwarded_messages_eq chat_messages_None [OF None] msg_role_message_dict
        msg_content_message_dict)
next
  case (Some h)
  show ?thesis
    by (auto simp add: forwarded_messages_eq chat_messages_Some [OF Some]
        msg_role_message_dict msg_content_message_dict)
qed

text \<open>
  C5. For every ChatRequest, whatever its history, the forwarded message sequence is
  not empty and its last entry is the user-role entry whose content is the prompt.
\<close>

theorem prompt_forwarded_last:
  "forwarded_messages cfg srv request calls \<noteq> []
   \<and> last (forwarded_messages cfg srv request calls) =
       message_dict ''user'' (prompt request)
   \<and> msg_role (last (forwarded_messages cfg srv request calls)) = Some ''user''
   \<and> msg_content (last (forwarded_messages cfg srv request calls)) = Some (prompt request)"
proof (cases "history request")
  case None
  show ?thesis
    by (simp add: forwarded_messages_eq chat_messages_None [OF None] msg_role_message_dict
        msg_content_message_dict)
next
  case (Some h)
  show ?thesis
    by (simp add: forwarded_messages_eq chat_messages_Some [OF Some] msg_role_message_dict
        msg_content_message_dict)
qed

text \<open>
  C6. For every ChatRequest whose history is absent or empty, the forwarded message
  sequence has exactly two entries: the system entry with \<open>system_instruction\<close>, then
  the prompt as a user-role entry.
\<close>

theorem empty_history_two_entries:
  assumes "history request = None \<or> history request = Some []"
  shows "forwarded_messages cfg srv request calls =
           [message_dict ''system'' system_instruction,
            message_dict ''user'' (prompt request)]
         \<and> length (forwarded_messages cfg srv request calls) = 2"
  using assms
  by (auto simp add: forwarded_messages_eq chat_messages_None chat_messages_Some)

theorem history_forwarded_normalized_witness:
  "history \<lparr>prompt = ''hi'', history = Some [\<lparr>role = ''system'', content = ''be rude''\<rparr>,
                                              \<lparr>role = ''user'', content = ''hello''\<rparr>]\<rparr>
     = Some [\<lparr>role = ''system'', content = ''be rude''\<rparr>, \<lparr>role = ''user'', content = ''hello''\<rparr>]
   \<and> (0::nat) < length [\<lparr>role = ''system'', content = ''be rude''\<rparr>,
                        \<lparr>role = ''user'', content = ''hello''\<rparr>]
   \<and> (1::nat) < length [\<lparr>role = ''system'', content = ''be rude''\<rparr>,
                        \<lparr>role = ''user'', content = ''hello''\<rparr>]
   \<and> forwarded_messages (load_config Map.empty) (constant_server (PostRaises ConnectionError))
        \<lparr>prompt = ''hi'', history = Some [\<lparr>role = ''system'', content = ''be rude''\<rparr>,
                                          \<lparr>role = ''user'', content = ''hello''\<rparr>]\<rparr> []
        ! Suc 0 = message_dict ''assistant'' ''be rude''
   \<and> forwarded_messages (load_config Map.empty) (constant_server (PostRaises ConnectionError))
        \<lparr>prompt = ''hi'', history = Some [\<lparr>role = ''system'', content = ''be rude''\<rparr>,
                                          \<lparr>role = ''user'', content = ''hello''\<rparr>]\<rparr> []
        ! Suc 1 = message_dict ''user'' ''hello''"
  using
    history_forwarded_normalized [of
      "\<lparr>prompt = ''hi'', history = Some [\<lparr>role = ''system'', content = ''be rude''\<rparr>,
                                        \<lparr>role = ''user'', content = ''hello''\<rparr>]\<rparr>"
      "[\<lparr>role = ''system'', content = ''be rude''\<rparr>, \<lparr>role = ''user'', content = ''hello''\<rparr>]"
      0 "load_config Map.empty" "constant_server (PostRaises ConnectionError)" "[]"]
    history_forwarded_normalized [of
      "\<lparr>prompt = ''hi'', history = Some [\<lparr>role = ''system'', content = ''be rude''\<rparr>,
                                        \<lparr>role = ''user'', content = ''hello''\<rparr>]\<rparr>"
      "[\<lparr>role = ''system'', content = ''be rude''\<rparr>, \<lparr>role = ''user'', content = ''hello''\<rparr>]"
      1 "load_config Map.empty" "constant_server (PostRaises ConnectionError)" "[]"]
  by simp

theorem one_leading_system_entry_witness:
  "tl (forwarded_messages (load_config Map.empty) (constant_server (PostRaises Timeout))
         \<lparr>prompt = ''hi'', history = Some [\<lparr>role = ''system'', content = ''be rude''\<rparr>]\<rparr> [])
     = [message_dict ''assistant'' ''be rude'', message_dict ''user'' ''hi'']
   \<and> msg_role (message_dict ''assistant'' ''be rude'') \<noteq> Some ''system''
   \<and> msg_role (message_dict ''user'' ''hi'') \<noteq> Some ''system''"
proof -
  have "forwarded_messages (load_config Map.empty) (constant_server (PostRaises Timeout))
         \<lparr>prompt = ''hi'', history = Some [\<lparr>role = ''system'', content = ''be rude''\<rparr>]\<rparr> []
     = [message_dict ''system'' system_instruction, message_dict ''assistant'' ''be rude'',
        message_dict ''user'' ''hi'']"
    by (simp add: forwarded_messages_eq chat_messages_def Let_def)
  then show ?thesis
    using one_leading_system_entry [of "load_config Map.empty"
        "constant_server (PostRaises Timeout)"
        "\<lparr>prompt = ''hi'', history = Some [\<lparr>role = ''system'', content = ''be rude''\<rparr>]\<rparr>" "[]"]
    by simp
qed

theorem empty_history_two_entries_witness:
  "(history \<lparr>prompt = ''hi'', history = None\<rparr> = None
      \<or> history \<lparr>prompt = ''hi'', history = None\<rparr> = Some [])
   \<and> (history \<lparr>prompt = ''hi'', history = Some []\<rparr> = None
      \<or> history \<lparr>prompt = ''hi'', history = Some []\<rparr> = Some [])
   \<and> forwarded_messages (load_config Map.empty) (constant_server (PostRaises ConnectionError))
        \<lparr>prompt = ''hi'', history = None\<rparr> []
       = [message_dict ''system'' system_instruction, message_dict ''user'' ''hi'']
   \<and> forwarded_messages (load_config Map.empty) (constant_server (PostRaises ConnectionError))
        \<lparr>prompt = ''hi'', history = Some []\<rparr> []
       = [message_dict ''system'' system_instruction, message_dict ''user'' ''hi'']"
  using
    empty_history_two_entries [of "\<lparr>prompt = ''hi'', history = None\<rparr>"
      "load_config Map.empty" "constant_server (PostRaises ConnectionError)" "[]"]
    empty_history_two_entries [of "\<lparr>prompt = ''hi'', history = Some []\<rparr>"
      "load_config Map.empty" "constant_server (PostRaises ConnectionError)" "[]"]
  by simp

subsection \<open>The outbound call\<close>

text \<open>
  C7. For every ChatRequest, the handler adds one call to the calls made: a POST to
  the configured base URL followed by \<open>/api/chat\<close>, with timeout 300 whatever the
  environment holds, whose payload names the configured model, carries the message
  sequence built for the request and has \<open>stream\<close> false. With nothing set in the environment the
  URL is \<open>http://localhost:11434/api/chat\<close> and the model is \<open>ai-girlfriend\<close>.
\<close>

theorem completion_payload_posted:
  "snd (chat_with_ollama cfg srv request calls) =
     calls @ [\<lparr>http_method = ''POST'',
               url = OLLAMA_URL cfg @ ''/api/chat'',
               json_payload =
                 JObject [(''model'', JString (OLLAMA_MODEL cfg)),
                          (''messages'', JArray (chat_messages request)),
                          (''stream'', JBool False)],
               timeout = 300\<rparr>]
   \<and> timeout (last (snd (chat_with_ollama (load_config env) srv request calls))) = 300
   \<and> url (last (snd (chat_with_ollama (load_config env) srv request calls))) =
       getenv env ''OLLAMA_URL'' ''http://localhost:11434'' @ ''/api/chat''
   \<and> url (last (snd (chat_with_ollama (load_config Map.empty) srv request calls))) =
       ''http://localhost:11434/api/chat''
   \<and> dict_item (json_payload (last (snd (chat_with_ollama (load_config Map.empty) srv
         request calls)))) ''model'' = Inr (JString ''ai-girlfriend'')"
  by (simp add: forwarded_messages_eq chat_with_ollama_call Let_def ollama_payload_def
      OLLAMA_TIMEOUT_def load_config_def getenv_def)

lemma chat_with_ollama_result:
  "fst (chat_with_ollama cfg srv request calls) =
     except_clause (try_body (srv (length calls)
       \<lparr>http_method = ''POST'', url = OLLAMA_URL cfg @ ''/api/chat'',
        json_payload = ollama_payload cfg (chat_messages request),
        timeout = OLLAMA_TIMEOUT\<rparr>))"
  by (simp add: chat_with_ollama_call Let_def)

lemma chat_with_ollama_calls:
  "length (snd (chat_with_ollama cfg srv request calls)) = Suc (length calls)"
  by (simp add: chat_with_ollama_call Let_def)

lemma read_reply_shaped:
  assumes "reply_shaped body"
  shows "read_reply body =
     (case reply_content body of
        None \<Rightarrow> Inl (HTTPException 500 empty_response_detail)
      | Some c \<Rightarrow>
          if truthy c then Inr (JObject [(''response'', c)])
          else Inl (HTTPException 500 empty_response_detail))"
proof (cases body)
  case (JObject kvs)
  show ?thesis
  proof (cases "map_of kvs ''message''")
    case None
    then show ?thesis by (simp add: JObject read_reply_def)
  next
    case (Some m)
    show ?thesis
    proof (cases "truthy m")
      case False
      then show ?thesis
        using Some by (cases m) (simp_all add: JObject read_reply_def)
    next
      case True
      with assms Some JObject obtain mkvs where m: "m = JObject mkvs"
        by (cases m) simp_all
      show ?thesis
        using Some True by (simp add: JObject m read_reply_def split: option.splits)
    qed
  qed
qed (use assms in simp_all)

text \<open>
  C9. The handler has no check of the prompt. For the ChatRequest with the empty
  prompt and any history it makes its one call; the forwarded message sequence is the
  one of any other prompt with the same history, except that its last entry is the
  user-role entry with empty content; and when the model server answers that call
  with status 200 and a message with non-empty content, the handler returns that
  content and no error.
\<close>

theorem empty_prompt_forwarded:
  "length (snd (chat_with_ollama cfg srv \<lparr>prompt = [], history = h\<rparr> calls)) = length calls + 1
   \<and> forwarded_messages cfg srv \<lparr>prompt = [], history = h\<rparr> calls =
       butlast (forwarded_messages cfg srv \<lparr>prompt = p, history = h\<rparr> calls)
       @ [message_dict ''user'' []]
   \<and> last (forwarded_messages cfg srv \<lparr>prompt = [], history = h\<rparr> calls) =
       message_dict ''user'' []
   \<and> ((\<forall>c. srv (length calls) c =
            PostReturns \<lparr>status_code = 200,
              body_json = Some (JObject [(''message'', JObject [(''content'', JString t)])])\<rparr>)
        \<and> t \<noteq> [] \<longrightarrow>
        fst (chat_with_ollama cfg srv \<lparr>prompt = [], history = h\<rparr> calls) =
          Inr (JObject [(''response'', JString t)]))"
proof -
  have calls: "length (snd (chat_with_ollama cfg srv \<lparr>prompt = [], history = h\<rparr> calls))
      = length calls + 1"
    by (simp add: chat_with_ollama_calls)
  have fwd: "forwarded_messages cfg srv \<lparr>prompt = [], history = h\<rparr> calls =
       butlast (forwarded_messages cfg srv \<lparr>prompt = p, history = h\<rparr> calls)
       @ [message_dict ''user'' []]"
    by (cases h) (simp_all add: forwarded_messages_eq chat_messages_None chat_messages_Some
        butlast_append)
  have lst: "last (forwarded_messages cfg srv \<lparr>prompt = [], history = h\<rparr> calls) =
       message_dict ''user'' []"
    by (simp add: fwd)
  have res: "fst (chat_with_ollama cfg srv \<lparr>prompt = [], history = h\<rparr> calls) =
          Inr (JObject [(''response'', JString t)])"
    if "\<forall>c. srv (length calls) c =
            PostReturns \<lparr>status_code = 200,
              body_json = Some (JObject [(''message'', JObject [(''content'', JString t)])])\<rparr>"
      and "t \<noteq> []"
    using that
    by (simp add: chat_with_ollama_result try_body_def raise_for_status_def response_json_def
        read_reply_def)
  show ?thesis
    using calls fwd lst res by blast
qed

theorem empty_prompt_forwarded_witness:
  "(\<forall>c. constant_server
           (PostReturns \<lparr>status_code = 200,
              body_json = Some (JObject [(''message'', JObject [(''content'', JString ''ok'')])])\<rparr>)
           (length ([]::http_call list)) c =
         PostReturns \<lparr>status_code = 200,
           body_json = Some (JObject [(''message'', JObject [(''content'', JString ''ok'')])])\<rparr>)
   \<and> ''ok'' \<noteq> []
   \<and> fst (chat_with_ollama (load_config Map.empty)
        (constant_server
           (PostReturns \<lparr>status_code = 200,
              body_json = Some (JObject [(''message'', JObject [(''content'', JString ''ok'')])])\<rparr>))
        \<lparr>prompt = [], history = None\<rparr> []) = Inr (JObject [(''response'', JString ''ok'')])
   \<and> forwarded_messages (load_config Map.empty)
        (constant_server
           (PostReturns \<lparr>status_code = 200,
              body_json = Some (JObject [(''message'', JObject [(''content'', JString ''ok'')])])\<rparr>))
        \<lparr>prompt = [], history = None\<rparr> []
       = [message_dict ''system'' system_instruction, message_dict ''user'' []]"
proof -
  have two: "forwarded_messages (load_config Map.empty)
        (constant_server
           (PostReturns \<lparr>status_code = 200,
              body_json = Some (JObject [(''message'', JObject [(''content'', JString ''ok'')])])\<rparr>))
        \<lparr>prompt = ''hi'', history = None\<rparr> []
       = [message_dict ''system'' system_instruction, message_dict ''user'' ''hi'']"
    by (simp add: forwarded_messages_eq chat_messages_None)
  show ?thesis
    using empty_prompt_forwarded [of "load_config Map.empty"
        "constant_server
           (PostReturns \<lparr>status_code = 200,
              body_json = Some (JObject [(''message'', JObject [(''content'', JString ''ok'')])])\<rparr>)"
        None "[]" "''hi''" "''ok''"]
    by (simp add: two constant_server_def)
qed

subsection \<open>Reading the reply\<close>

text \<open>
  C2, as stated, fails: for the body \<open>{"message": "hi"}\<close>, received with status 200,
  the message is there and has no content, and the handler ends with an
  \<open>AttributeError\<close>, which is neither a reply nor the error for an empty response.
\<close>

theorem reply_or_empty_response_counterexample:
  "fst (chat_with_ollama
         \<lparr>OLLAMA_URL = ''http://localhost:11434'', OLLAMA_MODEL = ''ai-girlfriend''\<rparr>
         (constant_server
            (PostReturns \<lparr>status_code = 200,
               body_json = Some (JObject [(''message'', JString ''hi'')])\<rparr>))
         \<lparr>prompt = ''hi'', history = None\<rparr> [])
     = Inl AttributeError
   \<and> unhandled AttributeError"
  by (simp add: chat_with_ollama_result constant_server_def try_body_def raise_for_status_def
      response_json_def read_reply_def)

text \<open>
  C2, amended. For every body received with a status that \<open>raise_for_status\<close> accepts,
  when the body is a dictionary whose \<open>message\<close> is absent, false or itself a
  dictionary: if the message has a content that is present and true (for a text: not
  empty), the handler returns the dictionary with that very content under
  \<open>response\<close>; otherwise (no message, no content, or an empty content) it raises the
  \<open>HTTPException\<close> with status 500 and the detail for an empty response. Exactly one
  of the two happens.
\<close>

theorem reply_or_empty_response:
  assumes "\<forall>c. srv (length calls) c = PostReturns r"
    and "\<not> (400 \<le> status_code r \<and> status_code r < 600)"
    and "body_json r = Some body"
    and "reply_shaped body"
  shows "fst (chat_with_ollama cfg srv request calls) =
      (case reply_content body of
         None \<Rightarrow> Inl (HTTPException 500 empty_response_detail)
       | Some c \<Rightarrow>
           if truthy c then Inr (JObject [(''response'', c)])
           else Inl (HTTPException 500 empty_response_detail))
    \<and> (reply_content body = Some (JString t) \<and> t \<noteq> [] \<longrightarrow>
         fst (chat_with_ollama cfg srv request calls) = Inr (JObject [(''response'', JString t)]))
    \<and> ((\<exists>v. fst (chat_with_ollama cfg srv request calls) = Inr v)
         \<noteq> (fst (chat_with_ollama cfg srv request calls) =
              Inl (HTTPException 500 empty_response_detail)))"
proof -
  have status: "raise_for_status r = Inr ()"
    using assms(2) by (auto simp add: raise_for_status_def)
  have "fst (chat_with_ollama cfg srv request calls) = except_clause (read_reply body)"
    using assms(1,3)
    by (simp add: chat_with_ollama_result try_body_def status response_json_def)
  then have res: "fst (chat_with_ollama cfg srv request calls) =
      (case reply_content body of
         None \<Rightarrow> Inl (HTTPException 500 empty_response_detail)
       | Some c \<Rightarrow>
           if truthy c then Inr (JObject [(''response'', c)])
           else Inl (HTTPException 500 empty_response_detail))"
    by (simp add: read_reply_shaped [OF assms(4)] split: option.splits)
  show ?thesis
    by (simp add: res split: option.splits)
qed

theorem reply_or_empty_response_witness:
  "fst (chat_with_ollama (load_config Map.empty)
         (constant_server
            (PostReturns \<lparr>status_code = 200,
               body_json = Some (JObject [(''message'', JObject [(''content'', JString ''hello'')])])\<rparr>))
         \<lparr>prompt = ''hi'', history = None\<rparr> [])
     = Inr (JObject [(''response'', JString ''hello'')])
   \<and> fst (chat_with_ollama (load_config Map.empty)
         (constant_server
            (PostReturns \<lparr>status_code = 200,
               body_json = Some (JObject [(''message'', JObject [])])\<rparr>))
         \<lparr>prompt = ''hi'', history = None\<rparr> [])
     = Inl (HTTPException 500 ''Ollama returned an empty response.'')"
  using
    reply_or_empty_response [of
      "constant_server
         (PostReturns \<lparr>status_code = 200,
            body_json = Some (JObject [(''message'', JObject [(''content'', JString ''hello'')])])\<rparr>)"
      "[]"
      "\<lparr>status_code = 200,
        body_json = Some (JObject [(''message'', JObject [(''content'', JString ''hello'')])])\<rparr>"
      "JObject [(''message'', JObject [(''content'', JString ''hello'')])]"
      "load_config Map.empty" "\<lparr>prompt = ''hi'', history = None\<rparr>" "''hello''"]
    reply_or_empty_response [of
      "constant_server
         (PostReturns \<lparr>status_code = 200, body_json = Some (JObject [(''message'', JObject [])])\<rparr>)"
      "[]"
      "\<lparr>status_code = 200, body_json = Some (JObject [(''message'', JObject [])])\<rparr>"
      "JObject [(''message'', JObject [])]"
      "load_config Map.empty" "\<lparr>prompt = ''hi'', history = None\<rparr>" "''hello''"]
  by (simp add: constant_server_def empty_response_detail_def)

subsection \<open>Failure of the outbound call\<close>

text \<open>
  C3, as stated, fails: when the model server answers with status 300, which is not a
  success status, and a body holding a message with content, the handler returns the
  reply and raises nothing.
\<close>

theorem remote_unavailable_no_retry_counterexample:
  "fst (chat_with_ollama
         \<lparr>OLLAMA_URL = ''http://localhost:11434'', OLLAMA_MODEL = ''ai-girlfriend''\<rparr>
         (constant_server
            (PostReturns \<lparr>status_code = 300,
               body_json = Some (JObject [(''message'', JObject [(''content'', JString ''hi'')])])\<rparr>))
         \<lparr>prompt = ''hi'', history = None\<rparr> [])
     = Inr (JObject [(''response'', JString ''hi'')])"
  by (simp add: chat_with_ollama_result constant_server_def try_body_def raise_for_status_def
      response_json_def read_reply_def)

text \<open>
  C3, amended. For every ChatRequest, if the outbound call raises a
  \<open>RequestException\<close> (a network error, a refused connection, a timeout) or the
  server answers with a status from 400 to 599, the handler raises the
  \<open>HTTPException\<close> with status 500 and the fixed detail, which is not an unhandled
  exception, and it has made exactly one call, whatever the server would answer to a
  further one.
\<close>

theorem remote_unavailable_no_retry:
  assumes "\<forall>c. srv (length calls) c = res"
    and "(\<exists>e. res = PostRaises e)
         \<or> (\<exists>r. res = PostReturns r \<and> 400 \<le> status_code r \<and> status_code r < 600)"
  shows "fst (chat_with_ollama cfg srv request calls) =
           Inl (HTTPException 500 remote_unavailable_detail)
    \<and> (\<forall>e. fst (chat_with_ollama cfg srv request calls) = Inl e \<longrightarrow> \<not> unhandled e)
    \<and> length (snd (chat_with_ollama cfg srv request calls)) = length calls + 1"
proof -
  have "try_body res = Inl (RequestException (case res of PostRaises e \<Rightarrow> e
           | PostReturns r \<Rightarrow> HTTPError (status_code r)))"
    using assms(2) by (auto simp add: try_body_def raise_for_status_def)
  then have "fst (chat_with_ollama cfg srv request calls) =
           Inl (HTTPException 500 remote_unavailable_detail)"
    using assms(1) by (simp add: chat_with_ollama_result)
  then show ?thesis
    by (simp add: chat_with_ollama_calls)
qed

theorem remote_unavailable_no_retry_witness:
  "fst (chat_with_ollama (load_config Map.empty)
         (\<lambda>n c. if n = 0 then PostRaises ConnectionError
                 else PostReturns \<lparr>status_code = 200,
                   body_json = Some (JObject [(''message'', JObject [(''content'', JString ''hi'')])])\<rparr>)
         \<lparr>prompt = ''hi'', history = None\<rparr> [])
     = Inl (HTTPException 500 remote_unavailable_detail)
   \<and> length (snd (chat_with_ollama (load_config Map.empty)
         (\<lambda>n c. if n = 0 then PostRaises ConnectionError
                 else PostReturns \<lparr>status_code = 200,
                   body_json = Some (JObject [(''message'', JObject [(''content'', JString ''hi'')])])\<rparr>)
         \<lparr>prompt = ''hi'', history = None\<rparr> [])) = 1
   \<and> fst (chat_with_ollama (load_config Map.empty)
         (constant_server (PostReturns \<lparr>status_code = 503, body_json = None\<rparr>))
         \<lparr>prompt = ''hi'', history = None\<rparr> [])
     = Inl (HTTPException 500 remote_unavailable_detail)"
  using
    remote_unavailable_no_retry [of
      "\<lambda>n c. if n = 0 then PostRaises ConnectionError
              else PostReturns \<lparr>status_code = 200,
                body_json = Some (JObject [(''message'', JObject [(''content'', JString ''hi'')])])\<rparr>"
      "[]" "PostRaises ConnectionError" "load_config Map.empty"
      "\<lparr>prompt = ''hi'', history = None\<rparr>"]
    remote_unavailable_no_retry [of
      "constant_server (PostReturns \<lparr>status_code = 503, body_json = None\<rparr>)"
      "[]" "PostReturns \<lparr>status_code = 503, body_json = None\<rparr>" "load_config Map.empty"
      "\<lparr>prompt = ''hi'', history = None\<rparr>"]
  by (simp add: constant_server_def)

subsection \<open>The catch-all route\<close>

text \<open>
  C10. For every request path, when the file \<open>index.html\<close> under the static root does
  not exist, the catch-all route returns, as an ordinary result, the dictionary whose
  \<open>message\<close> says that the front end is not built or \<open>index.html\<close> is not in the package.
\<close>

theorem missing_index_message:
  assumes "os_path_join (STATIC_DIR base_path) ''index.html'' \<notin> fs"
  shows "serve_index fs base_path full_path =
     ReturnsDict (JObject [(''message'',
       JString ''Frontend not built or index.html not found inside the executable package.'')])"
  using assms by (simp add: serve_index_def Let_def index_missing_message_def)

theorem missing_index_message_witness:
  "os_path_join (STATIC_DIR ''/app'') ''index.html'' = ''/app/dist/index.html''
   \<and> os_path_join (STATIC_DIR ''/app'') ''index.html'' \<notin> {''/app/dist'', ''/app/app.py''}
   \<and> serve_index {''/app/dist'', ''/app/app.py''} ''/app'' ''settings/profile'' =
     ReturnsDict (JObject [(''message'',
       JString ''Frontend not built or index.html not found inside the executable package.'')])"
proof -
  have p: "os_path_join (STATIC_DIR ''/app'') ''index.html'' = ''/app/dist/index.html''"
    by (simp add: os_path_join_def STATIC_DIR_def)
  have notin: "os_path_join (STATIC_DIR ''/app'') ''index.html'' \<notin> {''/app/dist'', ''/app/app.py''}"
    by (simp add: p)
  show ?thesis
    using p notin
      missing_index_message [of "''/app''" "{''/app/dist'', ''/app/app.py''}" "''settings/profile''"]
    by blast
qed

end
